theory Spec2Isabelle
  imports Main "HOL-Library.Multiset"
begin

section \<open>Data model of the drawing controller\<close>

text \<open>
  The embedding follows \<^verbatim>\<open>src/injected/drawing-controller.ts\<close>. Object references
  (iframe elements, Drawer instances) are handles of type \<open>nat\<close>; the numeric enum
  \<^verbatim>\<open>VisualizationType\<close> is a \<open>nat\<close>; an optional or nullable field is an \<open>option\<close>,
  \<open>None\<close> standing for both \<^verbatim>\<open>null\<close> and \<^verbatim>\<open>undefined\<close>.
\<close>

type_synonym VisualizationType = nat
type_synonym HTMLIFrameElement = nat
type_synonym Drawer = nat

text \<open>\<^verbatim>\<open>FeatureFlagStoreData\<close>: a dictionary from flag name to boolean.\<close>

type_synonym FeatureFlagStoreData = "string \<rightharpoonup> bool"

text \<open>
  \<^verbatim>\<open>AssessmentVisualizationInstance\<close>: the controller reads the two flags only; the
  identifying data is the target selector, and \<open>framePath\<close> is the selector of the iframe
  that owns the target (\<open>None\<close> for the current document).
\<close>

record AssessmentVisualizationInstance =
  target :: string
  framePath :: "string option"
  isVisible :: "bool option"
  isVisualizationEnabled :: "bool option"

text \<open>\<^verbatim>\<open>HTMLIFrameResult\<close>: one partition; field \<open>frameResults\<close> is the source's
  \<^verbatim>\<open>elementResults\<close> of the partition.\<close>

record HTMLIFrameResult =
  frame :: "HTMLIFrameElement option"
  frameResults :: "AssessmentVisualizationInstance list"

record VisualizationWindowMessage =
  visualizationType :: VisualizationType
  isEnabled :: bool
  configId :: string
  elementResults :: "AssessmentVisualizationInstance list option"
  featureFlagStoreData :: "FeatureFlagStoreData option"

text \<open>\<^verbatim>\<open>MessageRequest\<close>: field \<open>targetFrame\<close> is the source's \<^verbatim>\<open>frame\<close>.\<close>

record MessageRequest =
  command :: string
  targetFrame :: "HTMLIFrameElement option"
  message :: VisualizationWindowMessage

text \<open>
  Every call the controller makes on an injected collaborator, in the order made. The
  controller never reads a result back from these calls, so its control flow does not
  depend on what they do.
\<close>

datatype call =
    FrameCommunicator_subscribe string
  | FrameCommunicator_sendMessage MessageRequest
  | createVisibilityCheckerInterval string VisualizationType "AssessmentVisualizationInstance list"
  | clearVisibilityCheck string VisualizationType
  | Drawer_initialize Drawer "AssessmentVisualizationInstance list option" "FeatureFlagStoreData option"
  | Drawer_drawLayout Drawer
  | Drawer_eraseLayout Drawer
  | responder_invoke_null

text \<open>
  The fields of the class, and the log of collaborator calls. \<open>drawers\<close> is the object
  \<^verbatim>\<open>_drawers\<close> with its keys in insertion order.
\<close>

record DrawingController =
  drawers :: "(string \<times> Drawer) list"
  stored_featureFlagStoreData :: "FeatureFlagStoreData option"
  calls :: "call list"

text \<open>
  What the controller reads from its collaborators: the results helper's partitioning,
  the name of the feature flag, the iframes of the document (an entry may be null, as
  the guard of \<^verbatim>\<open>disableVisualizationInIFrames\<close> allows), the numeric values of the
  visualization-type enum, the assessment provider and the configuration factory.
  \<open>getStepMap\<close> lists the entries (property name, \<^verbatim>\<open>step.key\<close>) of the step map.
\<close>

record deps =
  splitResultsByFrame :: "AssessmentVisualizationInstance list \<Rightarrow> HTMLIFrameResult list"
  showInstanceVisibility :: string
  getAllElementsByTagName :: "string \<Rightarrow> HTMLIFrameElement option list"
  getNumericValues :: "VisualizationType list"
  isValidType :: "VisualizationType \<Rightarrow> bool"
  getStepMap :: "VisualizationType \<Rightarrow> (string \<times> string) list"
  config_getIdentifier :: "VisualizationType \<Rightarrow> string option \<Rightarrow> string"
  config_getDrawer :: "VisualizationType \<Rightarrow> string option \<Rightarrow> Drawer"

text \<open>
  A JavaScript \<^verbatim>\<open>TypeError\<close>: a property read or method call on \<^verbatim>\<open>undefined\<close>.
  An outcome keeps the state reached, since the effects before a throw stay done.
\<close>

datatype error = TypeError_undefined_featureFlagStoreData | TypeError_undefined_drawer

datatype outcome = Returned DrawingController | Raised error DrawingController

section \<open>The controller\<close>

definition triggerVisualizationCommand :: string where
  "triggerVisualizationCommand = ''insights.draw''"

definition new_DrawingController :: DrawingController where
  "new_DrawingController = \<lparr>drawers = [], stored_featureFlagStoreData = None, calls = []\<rparr>"

definition invoke :: "call \<Rightarrow> DrawingController \<Rightarrow> DrawingController" where
  "invoke c s = s\<lparr>calls := calls s @ [c]\<rparr>"

text \<open>\<^verbatim>\<open>this._drawers[id] = drawer\<close>: an existing key keeps its place and a new key goes
  last (configIds are names, not array indices, so the object enumerates in this order).\<close>

fun assign :: "string \<Rightarrow> Drawer \<Rightarrow> (string \<times> Drawer) list \<Rightarrow> (string \<times> Drawer) list" where
  "assign k v [] = [(k, v)]"
| "assign k v ((k', v') # kvs) = (if k' = k then (k, v) # kvs else (k', v') # assign k v kvs)"

definition setupDrawers_type :: "deps \<Rightarrow> VisualizationType \<Rightarrow> DrawingController \<Rightarrow> DrawingController" where
  "setupDrawers_type d visType s =
     (if isValidType d visType then
        fold (\<lambda>step s'.
                let ident = config_getIdentifier d visType (Some (snd step))
                in s'\<lparr>drawers := assign ident (config_getDrawer d visType (Some ident)) (drawers s')\<rparr>)
             (getStepMap d visType) s
      else
        (let ident = config_getIdentifier d visType None
         in s\<lparr>drawers := assign ident (config_getDrawer d visType None) (drawers s)\<rparr>))"

definition setupDrawers :: "deps \<Rightarrow> DrawingController \<Rightarrow> DrawingController" where
  "setupDrawers d s = fold (setupDrawers_type d) (getNumericValues d) s"

definition initialize :: "deps \<Rightarrow> DrawingController \<Rightarrow> DrawingController" where
  "initialize d s = setupDrawers d (invoke (FrameCommunicator_subscribe triggerVisualizationCommand) s)"

definition getAllFrames :: "deps \<Rightarrow> HTMLIFrameElement option list" where
  "getAllFrames d = getAllElementsByTagName d ''iframe''"

definition getDrawer :: "DrawingController \<Rightarrow> string \<Rightarrow> Drawer option" where
  "getDrawer s cid = map_of (drawers s) cid"

fun getInitialElements ::
  "AssessmentVisualizationInstance list option \<Rightarrow> AssessmentVisualizationInstance list option" where
  "getInitialElements None = None"
| "getInitialElements (Some currentFrameResults) =
     Some (filter (\<lambda>result. isVisible result \<noteq> Some False \<and> isVisualizationEnabled result \<noteq> Some False)
             currentFrameResults)"

definition createFrameRequestMessage ::
  "HTMLIFrameElement option \<Rightarrow> VisualizationWindowMessage \<Rightarrow> MessageRequest" where
  "createFrameRequestMessage fr msg =
     \<lparr>command = triggerVisualizationCommand, targetFrame = fr, message = msg\<rparr>"

definition enableVisualizationInCurrentFrame ::
  "AssessmentVisualizationInstance list option \<Rightarrow> string \<Rightarrow> DrawingController \<Rightarrow> outcome" where
  "enableVisualizationInCurrentFrame currentFrameResults cid s =
     (case getDrawer s cid of
        None \<Rightarrow> Raised TypeError_undefined_drawer s
      | Some drawer \<Rightarrow>
          Returned (invoke (Drawer_drawLayout drawer)
            (invoke (Drawer_initialize drawer (getInitialElements currentFrameResults)
                       (stored_featureFlagStoreData s)) s)))"

definition enableVisualizationInIFrames ::
  "VisualizationType \<Rightarrow> HTMLIFrameElement option \<Rightarrow> AssessmentVisualizationInstance list option
     \<Rightarrow> string \<Rightarrow> DrawingController \<Rightarrow> DrawingController" where
  "enableVisualizationInIFrames visType fr results cid s =
     invoke (FrameCommunicator_sendMessage (createFrameRequestMessage fr
        \<lparr>visualizationType = visType, isEnabled = True, configId = cid,
         elementResults = results, featureFlagStoreData = stored_featureFlagStoreData s\<rparr>)) s"

text \<open>The loop of \<^verbatim>\<open>enableVisualization\<close> over the partitions (lines 113 to 127).\<close>

fun enableVisualization_byFrames ::
  "deps \<Rightarrow> VisualizationType \<Rightarrow> string \<Rightarrow> HTMLIFrameResult list \<Rightarrow> DrawingController \<Rightarrow> outcome" where
  "enableVisualization_byFrames d visType cid [] s = Returned s"
| "enableVisualization_byFrames d visType cid (resultsForFrame # rest) s =
     (case frame resultsForFrame of
        None \<Rightarrow>
          (case stored_featureFlagStoreData s of
             None \<Rightarrow> Raised TypeError_undefined_featureFlagStoreData s
           | Some flags \<Rightarrow>
               (case enableVisualizationInCurrentFrame (Some (frameResults resultsForFrame)) cid
                       (if flags (showInstanceVisibility d) = Some True
                        then invoke (createVisibilityCheckerInterval cid visType
                                       (frameResults resultsForFrame)) s
                        else s) of
                  Raised e s' \<Rightarrow> Raised e s'
                | Returned s' \<Rightarrow> enableVisualization_byFrames d visType cid rest s'))
      | Some fr \<Rightarrow>
          enableVisualization_byFrames d visType cid rest
            (enableVisualizationInIFrames visType (Some fr) (Some (frameResults resultsForFrame)) cid s))"

definition enableVisualization ::
  "deps \<Rightarrow> VisualizationType \<Rightarrow> HTMLIFrameResult list option \<Rightarrow> string \<Rightarrow> DrawingController \<Rightarrow> outcome" where
  "enableVisualization d visType elementResultsByFrames cid s =
     (case elementResultsByFrames of
        Some byFrames \<Rightarrow> enableVisualization_byFrames d visType cid byFrames s
      | None \<Rightarrow>
          (case enableVisualizationInCurrentFrame None cid s of
             Raised e s' \<Rightarrow> Raised e s'
           | Returned s' \<Rightarrow>
               Returned (fold (\<lambda>fr. enableVisualizationInIFrames visType fr None cid)
                           (getAllFrames d) s')))"

definition disableVisualizationInCurrentFrame :: "string \<Rightarrow> DrawingController \<Rightarrow> outcome" where
  "disableVisualizationInCurrentFrame cid s =
     (case getDrawer s cid of
        None \<Rightarrow> Raised TypeError_undefined_drawer s
      | Some drawer \<Rightarrow> Returned (invoke (Drawer_eraseLayout drawer) s))"

definition disableVisualizationInIFrames ::
  "deps \<Rightarrow> VisualizationType \<Rightarrow> string \<Rightarrow> DrawingController \<Rightarrow> DrawingController" where
  "disableVisualizationInIFrames d visType cid s =
     fold (\<lambda>iframe s'.
             case iframe of
               None \<Rightarrow> s'
             | Some fr \<Rightarrow>
                 invoke (FrameCommunicator_sendMessage (createFrameRequestMessage (Some fr)
                   \<lparr>visualizationType = visType, isEnabled = False, configId = cid,
                    elementResults = None, featureFlagStoreData = None\<rparr>)) s')
          (getAllFrames d) s"

definition disableVisualization ::
  "deps \<Rightarrow> VisualizationType \<Rightarrow> string \<Rightarrow> DrawingController \<Rightarrow> outcome" where
  "disableVisualization d visType cid s =
     (case disableVisualizationInCurrentFrame cid s of
        Raised e s' \<Rightarrow> Raised e s'
      | Returned s' \<Rightarrow>
          Returned (invoke (clearVisibilityCheck cid visType)
                      (disableVisualizationInIFrames d visType cid s')))"

definition processRequest :: "deps \<Rightarrow> VisualizationWindowMessage \<Rightarrow> DrawingController \<Rightarrow> outcome" where
  "processRequest d msg s =
     (let s0 = s\<lparr>stored_featureFlagStoreData := featureFlagStoreData msg\<rparr>
      in if isEnabled msg then
           enableVisualization d (visualizationType msg)
             (map_option (splitResultsByFrame d) (elementResults msg)) (configId msg) s0
         else disableVisualization d (visualizationType msg) (configId msg) s0)"

text \<open>\<^verbatim>\<open>invokeMethodIfExists(responder, null)\<close>; the flag says whether a responder was
  supplied.\<close>

definition invokeMethodIfExists :: "bool \<Rightarrow> DrawingController \<Rightarrow> DrawingController" where
  "invokeMethodIfExists responder s = (if responder then invoke responder_invoke_null s else s)"

definition onTriggerVisualization ::
  "deps \<Rightarrow> VisualizationWindowMessage \<Rightarrow> bool \<Rightarrow> DrawingController \<Rightarrow> outcome" where
  "onTriggerVisualization d result responder s =
     (case processRequest d result s of
        Raised e s' \<Rightarrow> Raised e s'
      | Returned s' \<Rightarrow> Returned (invokeMethodIfExists responder s'))"

definition dispose :: "DrawingController \<Rightarrow> DrawingController" where
  "dispose s = fold (\<lambda>entry. invoke (Drawer_eraseLayout (snd entry))) (drawers s) s"

section \<open>Collaborators that are not part of the controller's source\<close>

text \<open>
  Modelled from the spec: \<^verbatim>\<open>HtmlElementAxeResultsHelper.splitResultsByFrame\<close>, whose
  source file is missing. Section 4.2: instances with no frame path are grouped under the
  \<^verbatim>\<open>frame: null\<close> partition; instances sharing the same iframe path are grouped under
  one result whose frame is the iframe the path resolves to; an instance whose target frame
  no longer exists in the document is dropped. \<open>querySelector\<close> resolves a frame path in
  the current document.
\<close>

definition splitResultsByFrame_spec ::
  "(string \<Rightarrow> HTMLIFrameElement option) \<Rightarrow> AssessmentVisualizationInstance list \<Rightarrow> HTMLIFrameResult list" where
  "splitResultsByFrame_spec querySelector results =
     List.map_filter
       (\<lambda>path. case path of
            None \<Rightarrow> Some \<lparr>frame = None, frameResults = filter (\<lambda>r. framePath r = None) results\<rparr>
          | Some sel \<Rightarrow>
              (case querySelector sel of
                 None \<Rightarrow> None
               | Some fr \<Rightarrow>
                   Some \<lparr>frame = Some fr,
                         frameResults = filter (\<lambda>r. framePath r = Some sel) results\<rparr>))
       (remdups (map framePath results))"

text \<open>
  Modelled from the spec: the Drawer (section 4.4), the instance visibility checker
  (section 4.3) and the frame communicator (section 4.1), whose source files are missing.
  A Drawer keeps the data of its last \<^verbatim>\<open>initialize\<close> and the overlay nodes it owns, one per
  rendered instance; \<^verbatim>\<open>drawLayout\<close> renders the visible, enabled instances;
  \<^verbatim>\<open>eraseLayout\<close> removes every overlay node and is safe on a drawer that has none. The
  checker holds at most one interval per configId: creating replaces, clearing removes and
  is a no-op when there is none. The communicator records subscriptions and sent requests.
\<close>

record Drawer_state =
  drawer_data :: "AssessmentVisualizationInstance list option"
  overlay :: "AssessmentVisualizationInstance list"

record page =
  drawer_state :: "Drawer \<Rightarrow> Drawer_state"
  intervals :: "string \<rightharpoonup> VisualizationType \<times> AssessmentVisualizationInstance list"
  subscriptions :: "string list"
  sent :: "MessageRequest list"
  responses :: nat

text \<open>
  Modelled from the spec: the effect of each collaborator call on the page (sections 4.1,
  4.3 and 4.4; the collaborators' sources are missing). None of them raises: the spec
  requires \<^verbatim>\<open>eraseLayout\<close>, \<^verbatim>\<open>clearVisibilityCheck\<close> and \<^verbatim>\<open>sendMessage\<close> to be safe
  no-ops where there is nothing to do.
\<close>

fun perform :: "call \<Rightarrow> page \<Rightarrow> page" where
  "perform (FrameCommunicator_subscribe cmd) w = w\<lparr>subscriptions := cmd # remove1 cmd (subscriptions w)\<rparr>"
| "perform (FrameCommunicator_sendMessage req) w = w\<lparr>sent := sent w @ [req]\<rparr>"
| "perform (createVisibilityCheckerInterval cid visType results) w =
     w\<lparr>intervals := (intervals w)(cid \<mapsto> (visType, results))\<rparr>"
| "perform (clearVisibilityCheck cid visType) w = w\<lparr>intervals := (intervals w)(cid := None)\<rparr>"
| "perform (Drawer_initialize dr dat flags) w =
     w\<lparr>drawer_state := (drawer_state w)(dr := (drawer_state w dr)\<lparr>drawer_data := dat\<rparr>)\<rparr>"
| "perform (Drawer_drawLayout dr) w =
     w\<lparr>drawer_state := (drawer_state w)(dr := (drawer_state w dr)
        \<lparr>overlay := filter (\<lambda>r. isVisible r \<noteq> Some False \<and> isVisualizationEnabled r \<noteq> Some False)
                      (case drawer_data (drawer_state w dr) of None \<Rightarrow> [] | Some rs \<Rightarrow> rs)\<rparr>)\<rparr>"
| "perform (Drawer_eraseLayout dr) w =
     w\<lparr>drawer_state := (drawer_state w)(dr := (drawer_state w dr)\<lparr>overlay := []\<rparr>)\<rparr>"
| "perform responder_invoke_null w = w\<lparr>responses := Suc (responses w)\<rparr>"

definition perform_all :: "call list \<Rightarrow> page \<Rightarrow> page" where
  "perform_all cs w = fold perform cs w"

text \<open>Modelled from the spec: the page before any call, every Drawer idle (section 4.5,
  state \<^emph>\<open>uninitialized\<close>), no interval, no subscription.\<close>

definition new_page :: page where
  "new_page = \<lparr>drawer_state = (\<lambda>dr. \<lparr>drawer_data = None, overlay = []\<rparr>),
               intervals = Map.empty, subscriptions = [], sent = [], responses = 0\<rparr>"

text \<open>The controller state an outcome leaves behind, returned or raised.\<close>

fun state_of :: "outcome \<Rightarrow> DrawingController" where
  "state_of (Returned s) = s"
| "state_of (Raised e s) = s"

section \<open>A concrete page\<close>

text \<open>
  A document with two iframes, of which \<^verbatim>\<open>#frame1\<close> is iframe 1; visualization type 0 is
  a plain one and type 1 an assessment with two test steps. The four instances \<open>inst1\<close> to
  \<open>inst4\<close> are the ones of the visibility-filter example; \<open>inst5\<close> lives in iframe 1 and
  \<open>inst6\<close> in a frame that is gone.
\<close>

definition inst1 :: AssessmentVisualizationInstance where
  "inst1 = \<lparr>target = ''#a'', framePath = None, isVisible = Some False, isVisualizationEnabled = None\<rparr>"

definition inst2 :: AssessmentVisualizationInstance where
  "inst2 = \<lparr>target = ''#b'', framePath = None, isVisible = None, isVisualizationEnabled = Some False\<rparr>"

definition inst3 :: AssessmentVisualizationInstance where
  "inst3 = \<lparr>target = ''#c'', framePath = None, isVisible = None, isVisualizationEnabled = None\<rparr>"

definition inst4 :: AssessmentVisualizationInstance where
  "inst4 = \<lparr>target = ''#d'', framePath = None, isVisible = Some True, isVisualizationEnabled = Some True\<rparr>"

definition inst5 :: AssessmentVisualizationInstance where
  "inst5 = \<lparr>target = ''#e'', framePath = Some ''#frame1'', isVisible = None, isVisualizationEnabled = None\<rparr>"

definition inst6 :: AssessmentVisualizationInstance where
  "inst6 = \<lparr>target = ''#f'', framePath = Some ''#gone'', isVisible = None, isVisualizationEnabled = None\<rparr>"

definition example_querySelector :: "string \<Rightarrow> HTMLIFrameElement option" where
  "example_querySelector sel = (if sel = ''#frame1'' then Some 1 else None)"

definition example_deps :: deps where
  "example_deps =
     \<lparr>splitResultsByFrame = splitResultsByFrame_spec example_querySelector,
      showInstanceVisibility = ''showInstanceVisibility'',
      getAllElementsByTagName = (\<lambda>tag. if tag = ''iframe'' then [Some 1, Some 2] else []),
      getNumericValues = [0, 1],
      isValidType = (\<lambda>t. t = 1),
      getStepMap = (\<lambda>t. if t = 1 then [(''stepA'', ''stepA''), (''stepB'', ''stepB'')] else []),
      config_getIdentifier = (\<lambda>t step. case step of None \<Rightarrow> ''issues'' | Some k \<Rightarrow> ''headings-'' @ k),
      config_getDrawer = (\<lambda>t ident. case ident of None \<Rightarrow> 10
                                      | Some k \<Rightarrow> if k = ''headings-stepA'' then 24 else 25)\<rparr>"

definition example_controller :: DrawingController where
  "example_controller =
     \<lparr>drawers = [(''issues'', 10), (''headings-stepA'', 24), (''headings-stepB'', 25)],
      stored_featureFlagStoreData = None, calls = []\<rparr>"

definition example_flags :: FeatureFlagStoreData where
  "example_flags = [''showInstanceVisibility'' \<mapsto> True]"

definition enable_with_results :: VisualizationWindowMessage where
  "enable_with_results =
     \<lparr>visualizationType = 0, isEnabled = True, configId = ''issues'',
      elementResults = Some [inst1, inst2, inst3, inst4, inst5],
      featureFlagStoreData = Some example_flags\<rparr>"

definition enable_without_results :: VisualizationWindowMessage where
  "enable_without_results =
     \<lparr>visualizationType = 0, isEnabled = True, configId = ''issues'',
      elementResults = None, featureFlagStoreData = Some example_flags\<rparr>"

definition enable_without_flags :: VisualizationWindowMessage where
  "enable_without_flags =
     \<lparr>visualizationType = 0, isEnabled = True, configId = ''issues'',
      elementResults = Some [inst5, inst3], featureFlagStoreData = None\<rparr>"

definition disable_request :: VisualizationWindowMessage where
  "disable_request =
     \<lparr>visualizationType = 0, isEnabled = False, configId = ''issues'',
      elementResults = None, featureFlagStoreData = None\<rparr>"

definition visibility_example :: VisualizationWindowMessage where
  "visibility_example =
     \<lparr>visualizationType = 0, isEnabled = True, configId = ''issues'',
      elementResults = Some [inst1, inst2, inst3, inst4],
      featureFlagStoreData = Some example_flags\<rparr>"

text \<open>The page reached from \<open>new_page\<close> by \<^verbatim>\<open>initialize()\<close> and the enable request
  \<open>enable_with_results\<close>: Drawer 10 has drawn \<open>inst3\<close> and \<open>inst4\<close>, a visibility
  interval runs for \<^verbatim>\<open>issues\<close>, and iframe 1 was sent its partition.\<close>

definition example_page :: page where
  "example_page =
     \<lparr>drawer_state = (\<lambda>dr. if dr = 10 then \<lparr>drawer_data = Some [inst3, inst4], overlay = [inst3, inst4]\<rparr>
                             else \<lparr>drawer_data = None, overlay = []\<rparr>),
      intervals = [''issues'' \<mapsto> (0, [inst1, inst2, inst3, inst4])],
      subscriptions = [''insights.draw''],
      sent = [\<lparr>command = ''insights.draw'', targetFrame = Some 1,
               message = \<lparr>visualizationType = 0, isEnabled = True, configId = ''issues'',
                          elementResults = Some [inst5],
                          featureFlagStoreData = Some example_flags\<rparr>\<rparr>],
      responses = 0\<rparr>"

section \<open>The calls made by one request\<close>

lemma calls_invoke [simp]: "calls (invoke c s) = calls s @ [c]"
  and drawers_invoke [simp]: "drawers (invoke c s) = drawers s"
  and stored_invoke [simp]: "stored_featureFlagStoreData (invoke c s) = stored_featureFlagStoreData s"
  by (simp_all add: invoke_def)

lemma getDrawer_invoke [simp]: "getDrawer (invoke c s) cid = getDrawer s cid"
  by (simp add: getDrawer_def)

lemma byFrames_returns:
  assumes "stored_featureFlagStoreData s = Some flags" and "getDrawer s cid = Some dr"
  shows "enableVisualization_byFrames d visType cid byFrames s =
     Returned (s\<lparr>calls := calls s @ concat (map (\<lambda>p.
        case frame p of
          None \<Rightarrow>
            (if flags (showInstanceVisibility d) = Some True
             then [createVisibilityCheckerInterval cid visType (frameResults p)] else []) @
            [Drawer_initialize dr
               (Some (filter (\<lambda>r. isVisible r \<noteq> Some False \<and> isVisualizationEnabled r \<noteq> Some False)
                        (frameResults p))) (Some flags),
             Drawer_drawLayout dr]
        | Some fr \<Rightarrow>
            [FrameCommunicator_sendMessage
               \<lparr>command = ''insights.draw'', targetFrame = Some fr,
                message = \<lparr>visualizationType = visType, isEnabled = True, configId = cid,
                           elementResults = Some (frameResults p),
                           featureFlagStoreData = Some flags\<rparr>\<rparr>]) byFrames)\<rparr>)"
  using assms
proof (induction byFrames arbitrary: s)
  case Nil
  then show ?case by simp
next
  case (Cons p ps)
  show ?case
  proof (cases "frame p")
    case None
    let ?s1 = "if flags (showInstanceVisibility d) = Some True
               then invoke (createVisibilityCheckerInterval cid visType (frameResults p)) s else s"
    let ?s2 = "invoke (Drawer_drawLayout dr) (invoke (Drawer_initialize dr (getInitialElements (Some (frameResults p))) (Some flags)) ?s1)"
    have e: "enableVisualizationInCurrentFrame (Some (frameResults p)) cid ?s1 = Returned ?s2"
      using Cons.prems by (simp add: enableVisualizationInCurrentFrame_def)
    have st: "stored_featureFlagStoreData ?s2 = Some flags" "getDrawer ?s2 cid = Some dr"
      using Cons.prems by simp_all
    have "enableVisualization_byFrames d visType cid (p # ps) s = enableVisualization_byFrames d visType cid ps ?s2"
      using None Cons.prems(1) e by simp
    also note Cons.IH[OF st]
    finally show ?thesis using None by (simp add: invoke_def)
  next
    case (Some fr)
    let ?s1 = "enableVisualizationInIFrames visType (Some fr) (Some (frameResults p)) cid s"
    have st: "stored_featureFlagStoreData ?s1 = Some flags" "getDrawer ?s1 cid = Some dr"
      using Cons.prems by (simp_all add: enableVisualizationInIFrames_def)
    have "enableVisualization_byFrames d visType cid (p # ps) s = enableVisualization_byFrames d visType cid ps ?s1"
      using Some by simp
    also note Cons.IH[OF st]
    finally show ?thesis using Some Cons.prems
      by (simp add: enableVisualizationInIFrames_def createFrameRequestMessage_def triggerVisualizationCommand_def invoke_def)
  qed
qed


lemma fold_invoke: "fold (\<lambda>x. invoke (f x)) xs s = s\<lparr>calls := calls s @ map f xs\<rparr>"
  by (induction xs arbitrary: s) (simp_all add: invoke_def)

lemma fold_invoke_option:
  "fold (\<lambda>x s'. case x of None \<Rightarrow> s' | Some y \<Rightarrow> invoke (f y) s') xs s =
     s\<lparr>calls := calls s @ concat (map (\<lambda>x. case x of None \<Rightarrow> [] | Some y \<Rightarrow> [f y]) xs)\<rparr>"
  by (induction xs arbitrary: s) (simp_all add: invoke_def split: option.splits)

lemma fold_enableVisualizationInIFrames:
  "fold (\<lambda>fr. enableVisualizationInIFrames visType fr results cid) frs s =
     s\<lparr>calls := calls s @ map (\<lambda>fr. FrameCommunicator_sendMessage
                \<lparr>command = ''insights.draw'', targetFrame = fr,
                 message = \<lparr>visualizationType = visType, isEnabled = True,
                            configId = cid, elementResults = results,
                            featureFlagStoreData = stored_featureFlagStoreData s\<rparr>\<rparr>) frs\<rparr>"
  by (induction frs arbitrary: s)
     (simp_all add: enableVisualizationInIFrames_def createFrameRequestMessage_def
        triggerVisualizationCommand_def invoke_def)

lemma processRequest_enable_results:
  assumes "isEnabled msg" and "elementResults msg = Some results"
    and "featureFlagStoreData msg = Some flags" and "getDrawer s (configId msg) = Some dr"
  shows "processRequest d msg s =
     Returned (s\<lparr>stored_featureFlagStoreData := Some flags,
       calls := calls s @ concat (map (\<lambda>p.
        case frame p of
          None \<Rightarrow>
            (if flags (showInstanceVisibility d) = Some True
             then [createVisibilityCheckerInterval (configId msg) (visualizationType msg) (frameResults p)]
             else []) @
            [Drawer_initialize dr
               (Some (filter (\<lambda>r. isVisible r \<noteq> Some False \<and> isVisualizationEnabled r \<noteq> Some False)
                        (frameResults p))) (Some flags),
             Drawer_drawLayout dr]
        | Some fr \<Rightarrow>
            [FrameCommunicator_sendMessage
               \<lparr>command = ''insights.draw'', targetFrame = Some fr,
                message = \<lparr>visualizationType = visualizationType msg, isEnabled = True,
                           configId = configId msg, elementResults = Some (frameResults p),
                           featureFlagStoreData = Some flags\<rparr>\<rparr>]) (splitResultsByFrame d results))\<rparr>)"
proof -
  let ?s0 = "s\<lparr>stored_featureFlagStoreData := Some flags\<rparr>"
  have st: "stored_featureFlagStoreData ?s0 = Some flags" "getDrawer ?s0 (configId msg) = Some dr"
    using assms(4) by (simp_all add: getDrawer_def)
  have "processRequest d msg s =
          enableVisualization_byFrames d (visualizationType msg) (configId msg)
            (splitResultsByFrame d results) ?s0"
    using assms(1-3) by (simp add: processRequest_def enableVisualization_def)
  also note byFrames_returns[OF st]
  finally show ?thesis by simp
qed

lemma processRequest_enable_nodata:
  assumes "isEnabled msg" and "elementResults msg = None"
    and "getDrawer s (configId msg) = Some dr"
  shows "processRequest d msg s =
     Returned (s\<lparr>stored_featureFlagStoreData := featureFlagStoreData msg,
       calls := calls s @
         [Drawer_initialize dr None (featureFlagStoreData msg), Drawer_drawLayout dr] @
         map (\<lambda>fr. FrameCommunicator_sendMessage
                \<lparr>command = ''insights.draw'', targetFrame = fr,
                 message = \<lparr>visualizationType = visualizationType msg, isEnabled = True,
                            configId = configId msg, elementResults = None,
                            featureFlagStoreData = featureFlagStoreData msg\<rparr>\<rparr>)
             (getAllElementsByTagName d ''iframe'')\<rparr>)"
proof -
  let ?s0 = "s\<lparr>stored_featureFlagStoreData := featureFlagStoreData msg\<rparr>"
  let ?s1 = "invoke (Drawer_drawLayout dr) (invoke (Drawer_initialize dr None (featureFlagStoreData msg)) ?s0)"
  have dr0: "getDrawer ?s0 (configId msg) = Some dr"
    using assms(3) by (simp add: getDrawer_def)
  have cur: "enableVisualizationInCurrentFrame None (configId msg) ?s0 = Returned ?s1"
    using dr0 by (simp add: enableVisualizationInCurrentFrame_def)
  have frames: "fold (\<lambda>fr. enableVisualizationInIFrames (visualizationType msg) fr None (configId msg))
                  (getAllFrames d) ?s1 =
        ?s1\<lparr>calls := calls ?s1 @ map (\<lambda>fr. FrameCommunicator_sendMessage
                \<lparr>command = ''insights.draw'', targetFrame = fr,
                 message = \<lparr>visualizationType = visualizationType msg, isEnabled = True,
                            configId = configId msg, elementResults = None,
                            featureFlagStoreData = featureFlagStoreData msg\<rparr>\<rparr>) (getAllFrames d)\<rparr>"
    by (simp add: fold_enableVisualizationInIFrames invoke_def)
  have "processRequest d msg s =
          Returned (fold (\<lambda>fr. enableVisualizationInIFrames (visualizationType msg) fr None (configId msg))
                  (getAllFrames d) ?s1)"
    using assms(1,2) cur by (simp add: processRequest_def enableVisualization_def)
  then show ?thesis
    unfolding frames by (simp add: invoke_def getAllFrames_def)
qed

lemma processRequest_disable:
  assumes "\<not> isEnabled msg" and "getDrawer s (configId msg) = Some dr"
  shows "processRequest d msg s =
     Returned (s\<lparr>stored_featureFlagStoreData := featureFlagStoreData msg,
       calls := calls s @ [Drawer_eraseLayout dr] @
         concat (map (\<lambda>iframe. case iframe of
                        None \<Rightarrow> []
                      | Some fr \<Rightarrow>
                          [FrameCommunicator_sendMessage
                             \<lparr>command = ''insights.draw'', targetFrame = Some fr,
                              message = \<lparr>visualizationType = visualizationType msg, isEnabled = False,
                                         configId = configId msg, elementResults = None,
                                         featureFlagStoreData = None\<rparr>\<rparr>])
                     (getAllElementsByTagName d ''iframe'')) @
         [clearVisibilityCheck (configId msg) (visualizationType msg)]\<rparr>)"
proof -
  let ?s0 = "s\<lparr>stored_featureFlagStoreData := featureFlagStoreData msg\<rparr>"
  have dr0: "getDrawer ?s0 (configId msg) = Some dr"
    using assms(2) by (simp add: getDrawer_def)
  have cur: "disableVisualizationInCurrentFrame (configId msg) ?s0 =
               Returned (invoke (Drawer_eraseLayout dr) ?s0)"
    using dr0 by (simp add: disableVisualizationInCurrentFrame_def)
  show ?thesis
    using assms(1) cur
    by (simp add: processRequest_def disableVisualization_def disableVisualizationInIFrames_def
          fold_invoke_option getAllFrames_def createFrameRequestMessage_def
          triggerVisualizationCommand_def invoke_def)
qed

lemma split_example_1_5:
  "splitResultsByFrame example_deps [inst1, inst2, inst3, inst4, inst5] =
     [\<lparr>frame = None, frameResults = [inst1, inst2, inst3, inst4]\<rparr>,
      \<lparr>frame = Some 1, frameResults = [inst5]\<rparr>]"
  by (simp add: example_deps_def splitResultsByFrame_spec_def example_querySelector_def
      inst1_def inst2_def inst3_def inst4_def inst5_def)

lemma split_example_1_4:
  "splitResultsByFrame example_deps [inst1, inst2, inst3, inst4] =
     [\<lparr>frame = None, frameResults = [inst1, inst2, inst3, inst4]\<rparr>]"
  by (simp add: example_deps_def splitResultsByFrame_spec_def example_querySelector_def
      inst1_def inst2_def inst3_def inst4_def)

lemma split_example_5_3:
  "splitResultsByFrame example_deps [inst5, inst3] =
     [\<lparr>frame = Some 1, frameResults = [inst5]\<rparr>, \<lparr>frame = None, frameResults = [inst3]\<rparr>]"
  by (simp add: example_deps_def splitResultsByFrame_spec_def example_querySelector_def
      inst3_def inst5_def)

lemma filter_drawer_calls:
  "filter (\<lambda>c. case c of Drawer_initialize _ _ _ \<Rightarrow> True | Drawer_drawLayout _ \<Rightarrow> True | _ \<Rightarrow> False)
     (concat (map (\<lambda>p.
        case frame p of
          None \<Rightarrow> (if b then [createVisibilityCheckerInterval cid visType (frameResults p)] else []) @
                  [Drawer_initialize dr (g p) fl, Drawer_drawLayout dr]
        | Some fr \<Rightarrow> [FrameCommunicator_sendMessage (h p fr)]) ps)) =
   concat (map (\<lambda>p. [Drawer_initialize dr (g p) fl, Drawer_drawLayout dr])
             (filter (\<lambda>p. frame p = None) ps))"
  by (induction ps) (auto split: option.splits)

lemma processRequest_enable_without_flags_example:
  "processRequest example_deps enable_without_flags example_controller =
     Raised TypeError_undefined_featureFlagStoreData
       (example_controller\<lparr>calls := [FrameCommunicator_sendMessage
               \<lparr>command = ''insights.draw'', targetFrame = Some 1,
                message = \<lparr>visualizationType = 0, isEnabled = True,
                           configId = ''issues'', elementResults = Some [inst5],
                           featureFlagStoreData = None\<rparr>\<rparr>]\<rparr>)"
  by (simp add: processRequest_def enableVisualization_def enable_without_flags_def
        split_example_5_3 enableVisualizationInIFrames_def createFrameRequestMessage_def
        triggerVisualizationCommand_def invoke_def example_controller_def)

section \<open>Claims about enabling a visualization\<close>

text \<open>
  C1, as amended. For an enable request whose elementResults and featureFlagStoreData
  are both present (the configId being registered), the request returns, and the calls
  made on the current frame's Drawer are, for each \<^verbatim>\<open>frame: null\<close> partition in turn,
  \<^verbatim>\<open>initialize\<close> with exactly the instances of that partition whose \<open>isVisible\<close> is not
  false and whose \<open>isVisualizationEnabled\<close> is not false (an unset flag counts as shown),
  followed by \<^verbatim>\<open>drawLayout\<close>. The witness is the example of the spec: of the four
  instances, the last two are handed to the Drawer and drawn.
\<close>

theorem drawer_receives_and_draws_visible_enabled_instances:
  assumes "isEnabled msg" and "elementResults msg = Some results"
    and "featureFlagStoreData msg = Some flags" and "getDrawer s (configId msg) = Some dr"
  shows "\<exists>s'. processRequest d msg s = Returned s' \<and>
     filter (\<lambda>c. case c of Drawer_initialize _ _ _ \<Rightarrow> True | Drawer_drawLayout _ \<Rightarrow> True | _ \<Rightarrow> False)
        (drop (length (calls s)) (calls s')) =
     concat (map (\<lambda>p. [Drawer_initialize dr
                 (Some (filter (\<lambda>r. isVisible r \<noteq> Some False \<and> isVisualizationEnabled r \<noteq> Some False)
                          (frameResults p)))
                 (Some flags),
               Drawer_drawLayout dr])
         (filter (\<lambda>p. frame p = None) (splitResultsByFrame d results)))"
  unfolding processRequest_enable_results[OF assms]
  by (simp add: filter_drawer_calls)

theorem drawer_receives_and_draws_visible_enabled_instances_witness:
  "isEnabled visibility_example \<and>
   elementResults visibility_example = Some [inst1, inst2, inst3, inst4] \<and>
   featureFlagStoreData visibility_example = Some example_flags \<and>
   getDrawer example_controller (configId visibility_example) = Some 10 \<and>
   (\<exists>s'. processRequest example_deps visibility_example example_controller = Returned s' \<and>
      filter (\<lambda>c. case c of Drawer_initialize _ _ _ \<Rightarrow> True | Drawer_drawLayout _ \<Rightarrow> True | _ \<Rightarrow> False)
        (drop (length (calls example_controller)) (calls s')) =
      [Drawer_initialize 10 (Some [inst3, inst4]) (Some example_flags), Drawer_drawLayout 10])"
proof -
  have h: "isEnabled visibility_example"
      "elementResults visibility_example = Some [inst1, inst2, inst3, inst4]"
      "featureFlagStoreData visibility_example = Some example_flags"
      "getDrawer example_controller (configId visibility_example) = Some 10"
    by (simp_all add: visibility_example_def example_controller_def getDrawer_def)
  have shown: "isVisible inst1 = Some False" "isVisualizationEnabled inst2 = Some False"
      "isVisible inst3 = None" "isVisualizationEnabled inst3 = None"
      "isVisible inst4 = Some True" "isVisualizationEnabled inst4 = Some True"
    by (simp_all add: inst1_def inst2_def inst3_def inst4_def)
  show ?thesis
    using h drawer_receives_and_draws_visible_enabled_instances[OF h, of example_deps]
    by (simp add: split_example_1_4 shown)
qed

text \<open>
  C1, as stated, fails: the request below carries elementResults but no
  featureFlagStoreData; its \<^verbatim>\<open>frame: null\<close> partition holds the shown instance \<open>inst3\<close>,
  yet the only call made is the message to iframe 1, so nothing reaches the Drawer.
\<close>

theorem shown_instance_not_drawn_without_flags_counterexample:
  "isEnabled enable_without_flags \<and>
   elementResults enable_without_flags = Some [inst5, inst3] \<and>
   splitResultsByFrame example_deps [inst5, inst3] =
     [\<lparr>frame = Some 1, frameResults = [inst5]\<rparr>, \<lparr>frame = None, frameResults = [inst3]\<rparr>] \<and>
   isVisible inst3 \<noteq> Some False \<and> isVisualizationEnabled inst3 \<noteq> Some False \<and>
   getDrawer example_controller (configId enable_without_flags) = Some 10 \<and>
   calls (state_of (processRequest example_deps enable_without_flags example_controller)) =
     [FrameCommunicator_sendMessage
        \<lparr>command = ''insights.draw'', targetFrame = Some 1,
         message = \<lparr>visualizationType = 0, isEnabled = True,
                    configId = ''issues'', elementResults = Some [inst5],
                    featureFlagStoreData = None\<rparr>\<rparr>]"
  by (simp add: processRequest_enable_without_flags_example split_example_5_3)
     (simp add: enable_without_flags_def inst3_def example_controller_def getDrawer_def)

text \<open>
  C2. For an enable request whose elementResults are absent (and whose configId is
  registered), \<^verbatim>\<open>processRequest\<close> returns after initializing the current frame's Drawer
  with no data, drawing it, and then sending one enable message without elementResults
  to every entry of the document's iframe list, in order: N iframes give exactly N
  forwarded messages. Nothing in the state records which iframes had results before.
\<close>

theorem enable_without_results_fans_out:
  assumes "isEnabled msg" and "elementResults msg = None"
    and "getDrawer s (configId msg) = Some dr"
  shows "processRequest d msg s =
     Returned (s\<lparr>stored_featureFlagStoreData := featureFlagStoreData msg,
       calls := calls s @
         [Drawer_initialize dr None (featureFlagStoreData msg), Drawer_drawLayout dr] @
         map (\<lambda>fr. FrameCommunicator_sendMessage
                \<lparr>command = ''insights.draw'', targetFrame = fr,
                 message = \<lparr>visualizationType = visualizationType msg, isEnabled = True,
                            configId = configId msg, elementResults = None,
                            featureFlagStoreData = featureFlagStoreData msg\<rparr>\<rparr>)
             (getAllElementsByTagName d ''iframe'')\<rparr>) \<and>
    length (filter (\<lambda>c. case c of FrameCommunicator_sendMessage _ \<Rightarrow> True | _ \<Rightarrow> False)
              (drop (length (calls s)) (calls (state_of (processRequest d msg s))))) =
      length (getAllElementsByTagName d ''iframe'')"
proof -
  have len: "length (filter (\<lambda>c. case c of FrameCommunicator_sendMessage _ \<Rightarrow> True | _ \<Rightarrow> False)
                (map (\<lambda>fr. FrameCommunicator_sendMessage (f fr)) frs)) = length frs" for f and frs :: "nat option list"
    by (induction frs) simp_all
  show ?thesis
    unfolding processRequest_enable_nodata[OF assms] by (simp add: len)
qed

theorem enable_without_results_fans_out_witness:
  "isEnabled enable_without_results \<and> elementResults enable_without_results = None \<and>
   getDrawer example_controller (configId enable_without_results) = Some 10 \<and>
   processRequest example_deps enable_without_results example_controller =
     Returned (example_controller\<lparr>stored_featureFlagStoreData := Some example_flags,
       calls :=
         [Drawer_initialize 10 None (Some example_flags), Drawer_drawLayout 10,
          FrameCommunicator_sendMessage
            \<lparr>command = ''insights.draw'', targetFrame = Some 1,
             message = \<lparr>visualizationType = 0, isEnabled = True, configId = ''issues'',
                        elementResults = None, featureFlagStoreData = Some example_flags\<rparr>\<rparr>,
          FrameCommunicator_sendMessage
            \<lparr>command = ''insights.draw'', targetFrame = Some 2,
             message = \<lparr>visualizationType = 0, isEnabled = True, configId = ''issues'',
                        elementResults = None, featureFlagStoreData = Some example_flags\<rparr>\<rparr>]\<rparr>) \<and>
   length (filter (\<lambda>c. case c of FrameCommunicator_sendMessage _ \<Rightarrow> True | _ \<Rightarrow> False)
      (drop (length (calls example_controller))
         (calls (state_of (processRequest example_deps enable_without_results example_controller))))) = 2"
proof -
  have h: "isEnabled enable_without_results" "elementResults enable_without_results = None"
      "getDrawer example_controller (configId enable_without_results) = Some 10"
    by (simp_all add: enable_without_results_def example_controller_def getDrawer_def)
  have more: "getAllElementsByTagName example_deps ''iframe'' = [Some 1, Some 2]"
      "featureFlagStoreData enable_without_results = Some example_flags"
      "configId enable_without_results = ''issues''" "visualizationType enable_without_results = 0"
      "calls example_controller = []"
    by (simp_all add: example_deps_def enable_without_results_def example_controller_def)
  show ?thesis
    using h enable_without_results_fans_out[OF h, of example_deps]
    by (simp add: more)
qed

text \<open>
  C3, as amended. For an enable request whose elementResults and featureFlagStoreData
  are both present (the configId being registered), \<^verbatim>\<open>processRequest\<close> returns, and the
  calls it makes are, partition by partition in the order of \<^verbatim>\<open>splitResultsByFrame\<close>: for a
  \<^verbatim>\<open>frame: null\<close> partition, a visibility-checker interval only if the instance-visibility
  flag of the message's snapshot is set, then \<^verbatim>\<open>initialize\<close> of the Drawer with the visible
  and enabled instances of the partition, then \<^verbatim>\<open>drawLayout\<close>; for a partition of an
  iframe, exactly one enable message to that iframe carrying the partition's
  elementResults, the configId, the visualization type and the feature-flag snapshot.
\<close>

theorem enable_with_results_calls:
  assumes "isEnabled msg" and "elementResults msg = Some results"
    and "featureFlagStoreData msg = Some flags" and "getDrawer s (configId msg) = Some dr"
  shows "processRequest d msg s =
     Returned (s\<lparr>stored_featureFlagStoreData := Some flags,
       calls := calls s @ concat (map (\<lambda>p.
        case frame p of
          None \<Rightarrow>
            (if flags (showInstanceVisibility d) = Some True
             then [createVisibilityCheckerInterval (configId msg) (visualizationType msg) (frameResults p)]
             else []) @
            [Drawer_initialize dr
               (Some (filter (\<lambda>r. isVisible r \<noteq> Some False \<and> isVisualizationEnabled r \<noteq> Some False)
                        (frameResults p))) (Some flags),
             Drawer_drawLayout dr]
        | Some fr \<Rightarrow>
            [FrameCommunicator_sendMessage
               \<lparr>command = ''insights.draw'', targetFrame = Some fr,
                message = \<lparr>visualizationType = visualizationType msg, isEnabled = True,
                           configId = configId msg, elementResults = Some (frameResults p),
                           featureFlagStoreData = Some flags\<rparr>\<rparr>]) (splitResultsByFrame d results))\<rparr>)"
  using assms by (rule processRequest_enable_results)

theorem enable_with_results_calls_witness:
  "isEnabled enable_with_results \<and>
   elementResults enable_with_results = Some [inst1, inst2, inst3, inst4, inst5] \<and>
   featureFlagStoreData enable_with_results = Some example_flags \<and>
   getDrawer example_controller (configId enable_with_results) = Some 10 \<and>
   processRequest example_deps enable_with_results example_controller =
     Returned (example_controller\<lparr>stored_featureFlagStoreData := Some example_flags,
       calls :=
         [createVisibilityCheckerInterval ''issues'' 0 [inst1, inst2, inst3, inst4],
          Drawer_initialize 10 (Some [inst3, inst4]) (Some example_flags),
          Drawer_drawLayout 10,
          FrameCommunicator_sendMessage
            \<lparr>command = ''insights.draw'', targetFrame = Some 1,
             message = \<lparr>visualizationType = 0, isEnabled = True, configId = ''issues'',
                        elementResults = Some [inst5],
                        featureFlagStoreData = Some example_flags\<rparr>\<rparr>]\<rparr>)"
proof -
  have h: "isEnabled enable_with_results"
      "elementResults enable_with_results = Some [inst1, inst2, inst3, inst4, inst5]"
      "featureFlagStoreData enable_with_results = Some example_flags"
      "getDrawer example_controller (configId enable_with_results) = Some 10"
    by (simp_all add: enable_with_results_def example_controller_def getDrawer_def)
  have shown: "isVisible inst1 = Some False" "isVisualizationEnabled inst2 = Some False"
      "isVisible inst3 = None" "isVisualizationEnabled inst3 = None"
      "isVisible inst4 = Some True" "isVisualizationEnabled inst4 = Some True"
    by (simp_all add: inst1_def inst2_def inst3_def inst4_def)
  have more: "showInstanceVisibility example_deps = ''showInstanceVisibility''"
      "example_flags ''showInstanceVisibility'' = Some True"
      "configId enable_with_results = ''issues''" "visualizationType enable_with_results = 0"
      "calls example_controller = []"
    by (simp_all add: example_deps_def example_flags_def enable_with_results_def example_controller_def)
  show ?thesis
    using h enable_with_results_calls[OF h, of example_deps]
    by (simp add: split_example_1_5 shown more)
qed

text \<open>
  C3, as stated, fails: an enable request with elementResults and no featureFlagStoreData
  does not skip visibility tracking and draw; it raises at the flag lookup, and the
  Drawer of its \<^verbatim>\<open>frame: null\<close> partition is neither initialized nor drawn.
\<close>

theorem enable_without_flags_raises_counterexample:
  "isEnabled enable_without_flags \<and>
   elementResults enable_without_flags = Some [inst5, inst3] \<and>
   processRequest example_deps enable_without_flags example_controller =
     Raised TypeError_undefined_featureFlagStoreData
       (state_of (processRequest example_deps enable_without_flags example_controller)) \<and>
   Drawer_initialize 10 (Some [inst3]) None
     \<notin> set (calls (state_of (processRequest example_deps enable_without_flags example_controller))) \<and>
   Drawer_drawLayout 10
     \<notin> set (calls (state_of (processRequest example_deps enable_without_flags example_controller)))"
  by (simp add: processRequest_enable_without_flags_example)
     (simp add: enable_without_flags_def example_controller_def)

section \<open>Claims about disabling a visualization\<close>

text \<open>
  C4. For a disable request (whose configId is registered), \<^verbatim>\<open>processRequest\<close> returns
  after erasing the layout of the current frame's Drawer for that configId, sending one
  disable message to every non-null iframe of the document's current iframe list, and
  clearing the visibility check of that configId. The calls depend on the message and the
  current iframe list only, and the state keeps no history of iframes or earlier enables:
  only the stored feature-flag snapshot and the call log change.
\<close>

theorem disable_erases_clears_and_fans_out:
  assumes "\<not> isEnabled msg" and "getDrawer s (configId msg) = Some dr"
  shows "processRequest d msg s =
     Returned (s\<lparr>stored_featureFlagStoreData := featureFlagStoreData msg,
       calls := calls s @ [Drawer_eraseLayout dr] @
         concat (map (\<lambda>iframe. case iframe of
                        None \<Rightarrow> []
                      | Some fr \<Rightarrow>
                          [FrameCommunicator_sendMessage
                             \<lparr>command = ''insights.draw'', targetFrame = Some fr,
                              message = \<lparr>visualizationType = visualizationType msg, isEnabled = False,
                                         configId = configId msg, elementResults = None,
                                         featureFlagStoreData = None\<rparr>\<rparr>])
                     (getAllElementsByTagName d ''iframe'')) @
         [clearVisibilityCheck (configId msg) (visualizationType msg)]\<rparr>)"
  using assms by (rule processRequest_disable)

theorem disable_erases_clears_and_fans_out_witness:
  "\<not> isEnabled disable_request \<and>
   getDrawer example_controller (configId disable_request) = Some 10 \<and>
   processRequest example_deps disable_request example_controller =
     Returned (example_controller\<lparr>
       calls :=
         [Drawer_eraseLayout 10,
          FrameCommunicator_sendMessage
            \<lparr>command = ''insights.draw'', targetFrame = Some 1,
             message = \<lparr>visualizationType = 0, isEnabled = False, configId = ''issues'',
                        elementResults = None, featureFlagStoreData = None\<rparr>\<rparr>,
          FrameCommunicator_sendMessage
            \<lparr>command = ''insights.draw'', targetFrame = Some 2,
             message = \<lparr>visualizationType = 0, isEnabled = False, configId = ''issues'',
                        elementResults = None, featureFlagStoreData = None\<rparr>\<rparr>,
          clearVisibilityCheck ''issues'' 0]\<rparr>)"
proof -
  have h: "\<not> isEnabled disable_request"
      "getDrawer example_controller (configId disable_request) = Some 10"
    by (simp_all add: disable_request_def example_controller_def getDrawer_def)
  have more: "getAllElementsByTagName example_deps ''iframe'' = [Some 1, Some 2]"
      "featureFlagStoreData disable_request = None"
      "configId disable_request = ''issues''" "visualizationType disable_request = 0"
      "calls example_controller = []" "stored_featureFlagStoreData example_controller = None"
    by (simp_all add: example_deps_def disable_request_def example_controller_def)
  show ?thesis
    using h disable_erases_clears_and_fans_out[OF h, of example_deps]
    by (simp add: more)
qed

section \<open>Claims about failures and acknowledgement\<close>

lemma byFrames_without_flags:
  assumes "stored_featureFlagStoreData s = None" and "\<exists>p \<in> set byFrames. frame p = None"
  shows "enableVisualization_byFrames d visType cid byFrames s =
     Raised TypeError_undefined_featureFlagStoreData
       (s\<lparr>calls := calls s @ map (\<lambda>p. FrameCommunicator_sendMessage
               \<lparr>command = ''insights.draw'', targetFrame = frame p,
                message = \<lparr>visualizationType = visType, isEnabled = True, configId = cid,
                           elementResults = Some (frameResults p),
                           featureFlagStoreData = None\<rparr>\<rparr>)
            (takeWhile (\<lambda>p. frame p \<noteq> None) byFrames)\<rparr>)"
  using assms
proof (induction byFrames arbitrary: s)
  case Nil
  then show ?case by simp
next
  case (Cons p ps)
  show ?case
  proof (cases "frame p")
    case None
    then show ?thesis using Cons.prems(1) by simp
  next
    case (Some fr)
    let ?s1 = "enableVisualizationInIFrames visType (Some fr) (Some (frameResults p)) cid s"
    have st: "stored_featureFlagStoreData ?s1 = None"
      using Cons.prems(1) by (simp add: enableVisualizationInIFrames_def)
    have ex: "\<exists>p \<in> set ps. frame p = None"
      using Cons.prems(2) Some by auto
    have "enableVisualization_byFrames d visType cid (p # ps) s =
            enableVisualization_byFrames d visType cid ps ?s1"
      using Some by simp
    also note Cons.IH[OF st ex]
    finally show ?thesis using Some Cons.prems(1)
      by (simp add: enableVisualizationInIFrames_def createFrameRequestMessage_def
            triggerVisualizationCommand_def invoke_def)
  qed
qed

text \<open>
  C10. An enable request that carries elementResults but no featureFlagStoreData, and
  whose partitioning has a \<^verbatim>\<open>frame: null\<close> partition, raises a TypeError at the feature-flag
  lookup: the only calls made are the messages for the iframe partitions that precede the
  first \<^verbatim>\<open>frame: null\<close> partition; no visibility interval is created and no Drawer is
  initialized or drawn.
\<close>

theorem enable_with_results_requires_flags:
  assumes "isEnabled msg" and "elementResults msg = Some results"
    and "featureFlagStoreData msg = None"
    and "\<exists>p \<in> set (splitResultsByFrame d results). frame p = None"
  shows "processRequest d msg s =
     Raised TypeError_undefined_featureFlagStoreData
       (s\<lparr>stored_featureFlagStoreData := None,
          calls := calls s @ map (\<lambda>p. FrameCommunicator_sendMessage
               \<lparr>command = ''insights.draw'', targetFrame = frame p,
                message = \<lparr>visualizationType = visualizationType msg, isEnabled = True,
                           configId = configId msg, elementResults = Some (frameResults p),
                           featureFlagStoreData = None\<rparr>\<rparr>)
            (takeWhile (\<lambda>p. frame p \<noteq> None) (splitResultsByFrame d results))\<rparr>)"
proof -
  let ?s0 = "s\<lparr>stored_featureFlagStoreData := None\<rparr>"
  have st: "stored_featureFlagStoreData ?s0 = None" by simp
  have "processRequest d msg s =
          enableVisualization_byFrames d (visualizationType msg) (configId msg)
            (splitResultsByFrame d results) ?s0"
    using assms(1-3) by (simp add: processRequest_def enableVisualization_def)
  also note byFrames_without_flags[OF st assms(4)]
  finally show ?thesis by simp
qed

theorem enable_with_results_requires_flags_witness:
  "isEnabled enable_without_flags \<and> elementResults enable_without_flags = Some [inst5, inst3] \<and>
   featureFlagStoreData enable_without_flags = None \<and>
   (\<exists>p \<in> set (splitResultsByFrame example_deps [inst5, inst3]). frame p = None) \<and>
   processRequest example_deps enable_without_flags example_controller =
     Raised TypeError_undefined_featureFlagStoreData
       (example_controller\<lparr>calls := [FrameCommunicator_sendMessage
               \<lparr>command = ''insights.draw'', targetFrame = Some 1,
                message = \<lparr>visualizationType = 0, isEnabled = True,
                           configId = ''issues'', elementResults = Some [inst5],
                           featureFlagStoreData = None\<rparr>\<rparr>]\<rparr>)"
proof -
  have h: "isEnabled enable_without_flags" "elementResults enable_without_flags = Some [inst5, inst3]"
      "featureFlagStoreData enable_without_flags = None"
      "\<exists>p \<in> set (splitResultsByFrame example_deps [inst5, inst3]). frame p = None"
    by (simp_all add: enable_without_flags_def split_example_5_3)
  have more: "configId enable_without_flags = ''issues''" "visualizationType enable_without_flags = 0"
      "calls example_controller = []" "stored_featureFlagStoreData example_controller = None"
    by (simp_all add: enable_without_flags_def example_controller_def)
  show ?thesis
    using h enable_with_results_requires_flags[OF h, of example_controller]
    by (simp add: more split_example_5_3)
qed

text \<open>
  C9, as amended. For an incoming \<^verbatim>\<open>insights.draw\<close> message on which \<^verbatim>\<open>processRequest\<close>
  returns, the subscribed handler returns too: with a responder it has invoked the
  responder with null after the calls of \<^verbatim>\<open>processRequest\<close>, and with no responder it
  has made those calls only. When \<^verbatim>\<open>processRequest\<close> raises, the handler raises the same
  error with the same calls made, responder or not. \<^verbatim>\<open>processRequest\<close> returns whenever
  the configId is registered and an enable with elementResults carries its feature-flag
  snapshot.
\<close>

theorem handler_acknowledges_when_request_returns:
  "(processRequest d msg s = Returned s' \<longrightarrow>
      onTriggerVisualization d msg True s = Returned (s'\<lparr>calls := calls s' @ [responder_invoke_null]\<rparr>) \<and>
      onTriggerVisualization d msg False s = Returned s') \<and>
   (processRequest d msg s = Raised e s' \<longrightarrow>
      onTriggerVisualization d msg responder s = Raised e s') \<and>
   (getDrawer s (configId msg) = Some dr \<and>
    (isEnabled msg \<and> elementResults msg \<noteq> None \<longrightarrow> featureFlagStoreData msg \<noteq> None) \<longrightarrow>
      (\<exists>s''. processRequest d msg s = Returned s''))"
proof -
  have "\<exists>s''. processRequest d msg s = Returned s''"
    if reg: "getDrawer s (configId msg) = Some dr"
      and fl: "isEnabled msg \<and> elementResults msg \<noteq> None \<longrightarrow> featureFlagStoreData msg \<noteq> None"
  proof (cases "isEnabled msg")
    case False
    then show ?thesis using processRequest_disable[OF False reg] by simp
  next
    case True
    show ?thesis
    proof (cases "elementResults msg")
      case None
      then show ?thesis using processRequest_enable_nodata[OF True None reg] by simp
    next
      case (Some results)
      then obtain flags where f: "featureFlagStoreData msg = Some flags"
        using fl True by auto
      show ?thesis using processRequest_enable_results[OF True Some f reg] by simp
    qed
  qed
  then show ?thesis
    by (simp add: onTriggerVisualization_def invokeMethodIfExists_def invoke_def)
qed

theorem handler_acknowledges_when_request_returns_witness:
  "getDrawer example_controller (configId enable_with_results) = Some 10 \<and>
   isEnabled enable_with_results \<and> elementResults enable_with_results \<noteq> None \<and>
   featureFlagStoreData enable_with_results \<noteq> None \<and>
   (\<exists>s'. processRequest example_deps enable_with_results example_controller = Returned s' \<and>
     onTriggerVisualization example_deps enable_with_results True example_controller =
       Returned (s'\<lparr>calls := calls s' @ [responder_invoke_null]\<rparr>) \<and>
     onTriggerVisualization example_deps enable_with_results False example_controller = Returned s') \<and>
   processRequest example_deps enable_without_flags example_controller =
     Raised TypeError_undefined_featureFlagStoreData
       (state_of (processRequest example_deps enable_without_flags example_controller)) \<and>
   onTriggerVisualization example_deps enable_without_flags True example_controller =
     Raised TypeError_undefined_featureFlagStoreData
       (state_of (processRequest example_deps enable_without_flags example_controller))"
proof -
  have reg: "getDrawer example_controller (configId enable_with_results) = Some 10"
    by (simp add: enable_with_results_def example_controller_def getDrawer_def)
  have given: "isEnabled enable_with_results" "elementResults enable_with_results \<noteq> None"
      "featureFlagStoreData enable_with_results \<noteq> None"
    by (simp_all add: enable_with_results_def)
  have raised: "processRequest example_deps enable_without_flags example_controller =
     Raised TypeError_undefined_featureFlagStoreData
       (state_of (processRequest example_deps enable_without_flags example_controller))"
    by (simp add: processRequest_enable_without_flags_example)
  from handler_acknowledges_when_request_returns
         [where d = example_deps and msg = enable_with_results and s = example_controller
            and dr = 10] reg given
  obtain s' where ret: "processRequest example_deps enable_with_results example_controller = Returned s'"
    by blast
  from handler_acknowledges_when_request_returns
         [where d = example_deps and msg = enable_with_results and s = example_controller
            and s' = s'] ret
  have ack: "onTriggerVisualization example_deps enable_with_results True example_controller =
       Returned (s'\<lparr>calls := calls s' @ [responder_invoke_null]\<rparr>)"
      "onTriggerVisualization example_deps enable_with_results False example_controller = Returned s'"
    by blast+
  from handler_acknowledges_when_request_returns
         [where d = example_deps and msg = enable_without_flags and s = example_controller
            and s' = "state_of (processRequest example_deps enable_without_flags example_controller)"
            and e = TypeError_undefined_featureFlagStoreData and responder = True] raised
  have nack: "onTriggerVisualization example_deps enable_without_flags True example_controller =
     Raised TypeError_undefined_featureFlagStoreData
       (state_of (processRequest example_deps enable_without_flags example_controller))"
    by blast
  show ?thesis using reg given ret ack raised nack by blast
qed

text \<open>
  C9, as stated, fails: on the enable request with elementResults and no
  featureFlagStoreData the handler raises, with and without a responder, and the
  responder is never invoked.
\<close>

theorem handler_raises_without_acknowledging_counterexample:
  "onTriggerVisualization example_deps enable_without_flags True example_controller =
     Raised TypeError_undefined_featureFlagStoreData
       (state_of (processRequest example_deps enable_without_flags example_controller)) \<and>
   onTriggerVisualization example_deps enable_without_flags False example_controller =
     Raised TypeError_undefined_featureFlagStoreData
       (state_of (processRequest example_deps enable_without_flags example_controller)) \<and>
   responder_invoke_null \<notin> set (calls (state_of
      (onTriggerVisualization example_deps enable_without_flags True example_controller)))"
  by (simp add: onTriggerVisualization_def processRequest_enable_without_flags_example)

section \<open>Claims about the registry and about dispose\<close>

lemma keys_assign: "fst ` set (assign k v kvs) = insert k (fst ` set kvs)"
  by (induction k v kvs rule: assign.induct) (simp_all add: insert_commute)

lemma distinct_assign: "distinct (map fst kvs) \<Longrightarrow> distinct (map fst (assign k v kvs))"
  by (induction kvs) (auto simp: keys_assign)

lemma fold_drawers_update:
  "fold (\<lambda>x s'. s'\<lparr>drawers := F x (drawers s')\<rparr>) xs s = s\<lparr>drawers := fold F xs (drawers s)\<rparr>"
  by (induction xs arbitrary: s) simp_all

lemma keys_fold_assign:
  "fst ` set (fold (\<lambda>x. assign (f x) (g x)) xs kvs) = f ` set xs \<union> fst ` set kvs"
  by (induction xs arbitrary: kvs) (auto simp: keys_assign)

lemma distinct_fold_assign:
  "distinct (map fst kvs) \<Longrightarrow> distinct (map fst (fold (\<lambda>x. assign (f x) (g x)) xs kvs))"
  by (induction xs arbitrary: kvs) (auto simp: distinct_assign)

lemma setupDrawers_type_eq:
  "setupDrawers_type d t s =
     s\<lparr>drawers :=
         (if isValidType d t
          then fold (\<lambda>step. assign (config_getIdentifier d t (Some (snd step)))
                       (config_getDrawer d t (Some (config_getIdentifier d t (Some (snd step))))))
                 (getStepMap d t) (drawers s)
          else assign (config_getIdentifier d t None) (config_getDrawer d t None) (drawers s))\<rparr>"
  by (simp add: setupDrawers_type_def Let_def
        fold_drawers_update[where F = "\<lambda>step. assign (config_getIdentifier d t (Some (snd step)))
                       (config_getDrawer d t (Some (config_getIdentifier d t (Some (snd step)))))"])

lemma keys_setupDrawers_type:
  "fst ` set (drawers (setupDrawers_type d t s)) =
     set (if isValidType d t
          then map (\<lambda>step. config_getIdentifier d t (Some (snd step))) (getStepMap d t)
          else [config_getIdentifier d t None]) \<union> fst ` set (drawers s)"
  by (simp add: setupDrawers_type_eq keys_fold_assign keys_assign)

lemma distinct_setupDrawers_type:
  "distinct (map fst (drawers s)) \<Longrightarrow> distinct (map fst (drawers (setupDrawers_type d t s)))"
  by (simp add: setupDrawers_type_eq distinct_fold_assign distinct_assign)

lemma calls_setupDrawers_type: "calls (setupDrawers_type d t s) = calls s"
  by (simp add: setupDrawers_type_eq)

lemma keys_setupDrawers:
  "fst ` set (drawers (fold (setupDrawers_type d) ts s)) =
     set (concat (map (\<lambda>t. if isValidType d t
          then map (\<lambda>step. config_getIdentifier d t (Some (snd step))) (getStepMap d t)
          else [config_getIdentifier d t None]) ts)) \<union> fst ` set (drawers s)"
proof (induction ts arbitrary: s)
  case Nil
  then show ?case by simp
next
  case (Cons t ts)
  show ?case
    unfolding fold_simps Cons.IH keys_setupDrawers_type by auto
qed

lemma distinct_setupDrawers:
  "distinct (map fst (drawers s)) \<Longrightarrow> distinct (map fst (drawers (fold (setupDrawers_type d) ts s)))"
  by (induction ts arbitrary: s) (simp_all add: distinct_setupDrawers_type)

lemma calls_setupDrawers: "calls (fold (setupDrawers_type d) ts s) = calls s"
  by (induction ts arbitrary: s) (simp_all add: calls_setupDrawers_type)

lemma drawers_byFrames:
  "drawers (state_of (enableVisualization_byFrames d visType cid byFrames s)) = drawers s"
proof (induction byFrames arbitrary: s)
  case Nil
  then show ?case by simp
next
  case (Cons p ps)
  show ?case
    by (cases "frame p")
       (auto simp: Cons.IH enableVisualizationInCurrentFrame_def enableVisualizationInIFrames_def
             split: option.splits)
qed

lemma drawers_processRequest: "drawers (state_of (processRequest d msg s)) = drawers s"
  by (cases "elementResults msg")
     (auto simp: processRequest_def Let_def enableVisualization_def drawers_byFrames
        enableVisualizationInCurrentFrame_def fold_enableVisualizationInIFrames
        disableVisualization_def disableVisualizationInCurrentFrame_def
        disableVisualizationInIFrames_def fold_invoke_option
        split: option.splits)

lemma drawers_onTriggerVisualization:
  "drawers (state_of (onTriggerVisualization d msg responder s)) = drawers s"
proof (cases "processRequest d msg s")
  case (Returned s')
  with drawers_processRequest[of d msg s] show ?thesis
    by (simp add: onTriggerVisualization_def invokeMethodIfExists_def)
next
  case (Raised e s')
  with drawers_processRequest[of d msg s] show ?thesis
    by (simp add: onTriggerVisualization_def)
qed

lemma dispose_calls:
  "dispose s = s\<lparr>calls := calls s @ map (\<lambda>entry. Drawer_eraseLayout (snd entry)) (drawers s)\<rparr>"
proof -
  have "fold (\<lambda>entry. invoke (Drawer_eraseLayout (snd entry))) es s =
          s\<lparr>calls := calls s @ map (\<lambda>entry. Drawer_eraseLayout (snd entry)) es\<rparr>"
    for es :: "(string \<times> Drawer) list"
    by (rule fold_invoke)
  then show ?thesis by (simp add: dispose_def)
qed

text \<open>
  C8. \<^verbatim>\<open>initialize()\<close> on a new controller subscribes to \<^verbatim>\<open>insights.draw\<close> and builds the
  registry in one pass over the visualization types: its keys are exactly the identifiers
  that the configuration's identifier function gives, for every test step of every
  assessment type and once for every other type. The registry then holds one Drawer per
  configId (its keys are distinct), and neither \<^verbatim>\<open>processRequest\<close>, nor the subscribed
  handler, nor \<^verbatim>\<open>dispose\<close> changes the registry, whether they return or raise.
\<close>

theorem registry_built_once_at_initialize:
  "set (map fst (drawers (initialize d new_DrawingController))) =
     set (concat (map (\<lambda>t. if isValidType d t
          then map (\<lambda>step. config_getIdentifier d t (Some (snd step))) (getStepMap d t)
          else [config_getIdentifier d t None]) (getNumericValues d))) \<and>
   distinct (map fst (drawers (initialize d new_DrawingController))) \<and>
   calls (initialize d new_DrawingController) = [FrameCommunicator_subscribe ''insights.draw''] \<and>
   drawers (state_of (processRequest d msg s)) = drawers s \<and>
   drawers (state_of (onTriggerVisualization d msg responder s)) = drawers s \<and>
   drawers (dispose s) = drawers s"
proof -
  let ?s0 = "invoke (FrameCommunicator_subscribe triggerVisualizationCommand) new_DrawingController"
  have d0: "drawers ?s0 = []" and c0: "calls ?s0 = [FrameCommunicator_subscribe ''insights.draw'']"
    by (simp_all add: new_DrawingController_def triggerVisualizationCommand_def)
  have "distinct (map fst (drawers ?s0))" by (simp add: new_DrawingController_def)
  then have "distinct (map fst (drawers (initialize d new_DrawingController)))"
    unfolding initialize_def setupDrawers_def by (rule distinct_setupDrawers)
  moreover have "set (map fst (drawers (initialize d new_DrawingController))) =
     set (concat (map (\<lambda>t. if isValidType d t
          then map (\<lambda>step. config_getIdentifier d t (Some (snd step))) (getStepMap d t)
          else [config_getIdentifier d t None]) (getNumericValues d)))"
    unfolding initialize_def setupDrawers_def set_map keys_setupDrawers
    by (simp add: new_DrawingController_def)
  moreover have "calls (initialize d new_DrawingController) = [FrameCommunicator_subscribe ''insights.draw'']"
    unfolding initialize_def setupDrawers_def calls_setupDrawers by (rule c0)
  moreover have "drawers (dispose s) = drawers s"
    by (simp add: dispose_calls)
  ultimately show ?thesis
    by (simp only: drawers_processRequest drawers_onTriggerVisualization simp_thms)
qed

theorem registry_built_once_at_initialize_witness:
  "drawers (initialize example_deps new_DrawingController) =
     [(''issues'', 10), (''headings-stepA'', 24), (''headings-stepB'', 25)] \<and>
   set (map fst (drawers (initialize example_deps new_DrawingController))) =
     {''issues'', ''headings-stepA'', ''headings-stepB''} \<and>
   distinct (map fst (drawers (initialize example_deps new_DrawingController))) \<and>
   drawers (state_of (processRequest example_deps enable_with_results example_controller)) =
     [(''issues'', 10), (''headings-stepA'', 24), (''headings-stepB'', 25)] \<and>
   drawers (dispose example_controller) =
     [(''issues'', 10), (''headings-stepA'', 24), (''headings-stepB'', 25)]"
proof -
  have i: "drawers (initialize example_deps new_DrawingController) =
     [(''issues'', 10), (''headings-stepA'', 24), (''headings-stepB'', 25)]"
    by (simp add: initialize_def setupDrawers_def setupDrawers_type_eq example_deps_def
          new_DrawingController_def invoke_def)
  have e: "drawers example_controller = [(''issues'', 10), (''headings-stepA'', 24), (''headings-stepB'', 25)]"
    by (simp add: example_controller_def)
  show ?thesis
    using registry_built_once_at_initialize[of example_deps enable_with_results example_controller True]
    by (simp add: i e)
qed

lemma perform_all_Nil [simp]: "perform_all [] w = w"
  and perform_all_Cons [simp]: "perform_all (c # cs) w = perform_all cs (perform c w)"
  and perform_all_append [simp]: "perform_all (cs @ cs') w = perform_all cs' (perform_all cs w)"
  by (simp_all add: perform_all_def)

lemma perform_all_erase:
  "perform_all (map (\<lambda>entry. Drawer_eraseLayout (snd entry)) es) w =
     w\<lparr>drawer_state := (\<lambda>dr. if dr \<in> snd ` set es then (drawer_state w dr)\<lparr>overlay := []\<rparr>
                              else drawer_state w dr)\<rparr>"
proof (induction es arbitrary: w)
  case Nil
  then show ?case by simp
next
  case (Cons e es)
  show ?case
    unfolding list.map perform_all_Cons Cons.IH
    by (auto simp: fun_eq_iff)
qed

lemma perform_all_disable_messages:
  "perform_all (concat (map (\<lambda>iframe. case iframe of None \<Rightarrow> []
                               | Some fr \<Rightarrow> [FrameCommunicator_sendMessage (f fr)]) frs)) w =
     w\<lparr>sent := sent w @ concat (map (\<lambda>iframe. case iframe of None \<Rightarrow> [] | Some fr \<Rightarrow> [f fr]) frs)\<rparr>"
  by (induction frs arbitrary: w) (simp_all split: option.splits)

lemma initialize_example:
  "initialize example_deps new_DrawingController =
     example_controller\<lparr>calls := [FrameCommunicator_subscribe ''insights.draw'']\<rparr>"
  by (simp add: initialize_def setupDrawers_def setupDrawers_type_eq example_deps_def
        new_DrawingController_def invoke_def example_controller_def triggerVisualizationCommand_def)

lemma example_page_reached:
  "perform_all (calls (state_of (processRequest example_deps enable_with_results
       (initialize example_deps new_DrawingController)))) new_page = example_page"
proof -
  have h: "isEnabled enable_with_results"
      "elementResults enable_with_results = Some [inst1, inst2, inst3, inst4, inst5]"
      "featureFlagStoreData enable_with_results = Some example_flags"
      "getDrawer (initialize example_deps new_DrawingController) (configId enable_with_results) = Some 10"
    by (simp_all add: enable_with_results_def initialize_example example_controller_def getDrawer_def)
  have shown: "isVisible inst1 = Some False" "isVisualizationEnabled inst2 = Some False"
      "isVisible inst3 = None" "isVisualizationEnabled inst3 = None"
      "isVisible inst4 = Some True" "isVisualizationEnabled inst4 = Some True"
    by (simp_all add: inst1_def inst2_def inst3_def inst4_def)
  have more: "showInstanceVisibility example_deps = ''showInstanceVisibility''"
      "example_flags ''showInstanceVisibility'' = Some True"
      "configId enable_with_results = ''issues''" "visualizationType enable_with_results = 0"
    by (simp_all add: example_deps_def example_flags_def enable_with_results_def)
  show ?thesis
    unfolding processRequest_enable_results[OF h]
    by (simp add: split_example_1_5 shown more initialize_example new_page_def example_page_def
          fun_eq_iff)
qed

text \<open>
  C7. \<^verbatim>\<open>dispose()\<close> calls \<^verbatim>\<open>eraseLayout\<close> on every Drawer of the registry and makes no
  other call. On the page, every registered Drawer then owns no overlay node, whatever
  it had drawn before, while the visibility-check intervals and the frame communicator's
  subscriptions are as they were.
\<close>

theorem dispose_erases_every_layout:
  "dispose s = s\<lparr>calls := calls s @ map (\<lambda>entry. Drawer_eraseLayout (snd entry)) (drawers s)\<rparr> \<and>
   (\<forall>entry \<in> set (drawers s).
      overlay (drawer_state (perform_all (drop (length (calls s)) (calls (dispose s))) w) (snd entry)) = []) \<and>
   intervals (perform_all (drop (length (calls s)) (calls (dispose s))) w) = intervals w \<and>
   subscriptions (perform_all (drop (length (calls s)) (calls (dispose s))) w) = subscriptions w"
  by (simp add: dispose_calls perform_all_erase)

theorem dispose_erases_every_layout_witness:
  "(''issues'', 10) \<in> set (drawers example_controller) \<and>
   overlay (drawer_state example_page 10) = [inst3, inst4] \<and>
   overlay (drawer_state (perform_all (drop (length (calls example_controller))
        (calls (dispose example_controller))) example_page) 10) = [] \<and>
   intervals (perform_all (drop (length (calls example_controller))
        (calls (dispose example_controller))) example_page) ''issues'' =
     Some (0, [inst1, inst2, inst3, inst4]) \<and>
   subscriptions (perform_all (drop (length (calls example_controller))
        (calls (dispose example_controller))) example_page) = [''insights.draw'']"
proof -
  have m: "(''issues'', 10) \<in> set (drawers example_controller)"
    by (simp add: example_controller_def)
  have p: "overlay (drawer_state example_page 10) = [inst3, inst4]"
      "intervals example_page ''issues'' = Some (0, [inst1, inst2, inst3, inst4])"
      "subscriptions example_page = [''insights.draw'']"
    by (simp_all add: example_page_def)
  from dispose_erases_every_layout[of example_controller example_page]
  have "\<forall>entry \<in> set (drawers example_controller).
      overlay (drawer_state (perform_all (drop (length (calls example_controller))
        (calls (dispose example_controller))) example_page) (snd entry)) = []"
    and "intervals (perform_all (drop (length (calls example_controller))
        (calls (dispose example_controller))) example_page) = intervals example_page"
    and "subscriptions (perform_all (drop (length (calls example_controller))
        (calls (dispose example_controller))) example_page) = subscriptions example_page"
    by blast+
  with m p show ?thesis by force
qed

text \<open>
  C6. A disable request for a registered configId whose Drawer has drawn nothing and
  for which no visibility interval runs (the state before any enable) returns without
  raising, and the calls it makes leave every Drawer and every interval of the page as
  they were; \<^verbatim>\<open>eraseLayout\<close> on that Drawer and \<^verbatim>\<open>clearVisibilityCheck\<close> for that id
  are no-ops.
\<close>

theorem disable_without_enable_is_noop:
  assumes "\<not> isEnabled msg" and "getDrawer s (configId msg) = Some dr"
    and "overlay (drawer_state w dr) = []" and "intervals w (configId msg) = None"
  shows "\<exists>s'. processRequest d msg s = Returned s' \<and>
     drawer_state (perform_all (drop (length (calls s)) (calls s')) w) = drawer_state w \<and>
     intervals (perform_all (drop (length (calls s)) (calls s')) w) = intervals w \<and>
     perform (Drawer_eraseLayout dr) w = w \<and>
     perform (clearVisibilityCheck (configId msg) (visualizationType msg)) w = w"
proof -
  have "(drawer_state w dr)\<lparr>overlay := []\<rparr> = drawer_state w dr"
    using assms(3) by (cases "drawer_state w dr") simp
  then have ov: "(drawer_state w)(dr := (drawer_state w dr)\<lparr>overlay := []\<rparr>) = drawer_state w"
    by simp
  have iv: "(intervals w)(configId msg := None) = intervals w"
    using assms(4) by (simp add: fun_eq_iff)
  show ?thesis
    unfolding processRequest_disable[OF assms(1,2)]
    by (simp add: ov iv perform_all_disable_messages)
qed

theorem disable_without_enable_is_noop_witness:
  "\<not> isEnabled disable_request \<and>
   getDrawer example_controller (configId disable_request) = Some 10 \<and>
   overlay (drawer_state new_page 10) = [] \<and> intervals new_page (configId disable_request) = None \<and>
   (\<exists>s'. processRequest example_deps disable_request example_controller = Returned s' \<and>
     drawer_state (perform_all (drop (length (calls example_controller)) (calls s')) new_page) =
       drawer_state new_page \<and>
     intervals (perform_all (drop (length (calls example_controller)) (calls s')) new_page) =
       intervals new_page \<and>
     perform (Drawer_eraseLayout 10) new_page = new_page \<and>
     perform (clearVisibilityCheck ''issues'' 0) new_page = new_page)"
proof -
  have h: "\<not> isEnabled disable_request"
      "getDrawer example_controller (configId disable_request) = Some 10"
      "overlay (drawer_state new_page 10) = []" "intervals new_page (configId disable_request) = None"
    by (simp_all add: disable_request_def example_controller_def getDrawer_def new_page_def)
  have more: "configId disable_request = ''issues''" "visualizationType disable_request = 0"
    by (simp_all add: disable_request_def)
  show ?thesis
    using h disable_without_enable_is_noop[OF h, of example_deps]
    by (simp add: more)
qed

section \<open>Claims about partitioning by frame\<close>

lemma mset_group_step:
  assumes "k \<notin> set ks"
  shows "mset (filter (\<lambda>r. framePath r = k) xs) +
           mset (filter (\<lambda>r. framePath r \<in> set ks \<and> keep (framePath r)) xs) =
         mset (filter (\<lambda>r. (framePath r = k \<or> framePath r \<in> set ks \<and> keep (framePath r))) xs)"
  using assms by (induction xs) auto

lemma mset_split_groups:
  assumes "distinct ks"
  shows "mset (concat (map frameResults (List.map_filter
       (\<lambda>path. case path of
            None \<Rightarrow> Some \<lparr>frame = None, frameResults = filter (\<lambda>r. framePath r = None) xs\<rparr>
          | Some sel \<Rightarrow>
              (case q sel of
                 None \<Rightarrow> None
               | Some fr \<Rightarrow>
                   Some \<lparr>frame = Some fr, frameResults = filter (\<lambda>r. framePath r = Some sel) xs\<rparr>))
       ks))) =
     mset (filter (\<lambda>r. framePath r \<in> set ks \<and>
                        (case framePath r of None \<Rightarrow> True | Some sel \<Rightarrow> q sel \<noteq> None)) xs)"
  using assms
proof (induction ks)
  case Nil
  then show ?case by simp
next
  case (Cons k ks)
  then have notin: "k \<notin> set ks" and dist: "distinct ks" by simp_all
  note IH = Cons.IH[OF dist]
  show ?case
  proof (cases k)
    case None
    have "mset (filter (\<lambda>r. framePath r = None) xs) +
           mset (filter (\<lambda>r. framePath r \<in> set ks \<and>
                   (case framePath r of None \<Rightarrow> True | Some sel \<Rightarrow> q sel \<noteq> None)) xs) =
         mset (filter (\<lambda>r. (framePath r = None \<or> framePath r \<in> set ks \<and>
                   (case framePath r of None \<Rightarrow> True | Some sel \<Rightarrow> q sel \<noteq> None))) xs)"
      using notin None by (intro mset_group_step) simp
    also have "\<dots> = mset (filter (\<lambda>r. framePath r \<in> set (k # ks) \<and>
                   (case framePath r of None \<Rightarrow> True | Some sel \<Rightarrow> q sel \<noteq> None)) xs)"
      using None by (intro arg_cong[where f = mset] filter_cong) (auto split: option.splits)
    finally show ?thesis
      using None IH by simp
  next
    case (Some sel)
    show ?thesis
    proof (cases "q sel")
      case None
      have "filter (\<lambda>r. framePath r \<in> set (k # ks) \<and>
                   (case framePath r of None \<Rightarrow> True | Some sel \<Rightarrow> q sel \<noteq> None)) xs =
            filter (\<lambda>r. framePath r \<in> set ks \<and>
                   (case framePath r of None \<Rightarrow> True | Some sel \<Rightarrow> q sel \<noteq> None)) xs"
        using Some None by (intro filter_cong) (auto split: option.splits)
      then show ?thesis
        using Some None IH by simp
    next
      case (Some fr)
      have "mset (filter (\<lambda>r. framePath r = k) xs) +
           mset (filter (\<lambda>r. framePath r \<in> set ks \<and>
                   (case framePath r of None \<Rightarrow> True | Some sel \<Rightarrow> q sel \<noteq> None)) xs) =
         mset (filter (\<lambda>r. (framePath r = k \<or> framePath r \<in> set ks \<and>
                   (case framePath r of None \<Rightarrow> True | Some sel \<Rightarrow> q sel \<noteq> None))) xs)"
        using notin by (rule mset_group_step)
      also have "\<dots> = mset (filter (\<lambda>r. framePath r \<in> set (k # ks) \<and>
                   (case framePath r of None \<Rightarrow> True | Some sel \<Rightarrow> q sel \<noteq> None)) xs)"
        using Some \<open>k = Some sel\<close>
        by (intro arg_cong[where f = mset] filter_cong) (auto split: option.splits)
      finally show ?thesis
        using Some \<open>k = Some sel\<close> IH by simp
    qed
  qed
qed

text \<open>
  C5, as amended. The concatenation of the partitions of \<^verbatim>\<open>splitResultsByFrame\<close> is a
  permutation of those input instances whose target frame still exists: the instances
  with no frame path and the instances whose frame path resolves to an iframe of the
  document. Each of them is placed in exactly one partition, as often as it occurs in the
  input, so an input without repetitions gives partitions without repetitions; the
  instances whose frame is gone are dropped.
\<close>

theorem split_is_permutation_of_resolvable_instances:
  "mset (concat (map frameResults (splitResultsByFrame_spec querySelector results))) =
     mset (filter (\<lambda>r. case framePath r of None \<Rightarrow> True | Some sel \<Rightarrow> querySelector sel \<noteq> None)
             results) \<and>
   (distinct results \<longrightarrow>
      distinct (concat (map frameResults (splitResultsByFrame_spec querySelector results))))"
proof -
  have "mset (concat (map frameResults (splitResultsByFrame_spec querySelector results))) =
        mset (filter (\<lambda>r. framePath r \<in> set (remdups (map framePath results)) \<and>
                (case framePath r of None \<Rightarrow> True | Some sel \<Rightarrow> querySelector sel \<noteq> None)) results)"
    unfolding splitResultsByFrame_spec_def
    by (rule mset_split_groups) simp
  also have "\<dots> = mset (filter (\<lambda>r. case framePath r of None \<Rightarrow> True
                                   | Some sel \<Rightarrow> querySelector sel \<noteq> None) results)"
    by (intro arg_cong[where f = mset] filter_cong) auto
  finally have perm: "mset (concat (map frameResults (splitResultsByFrame_spec querySelector results))) =
     mset (filter (\<lambda>r. case framePath r of None \<Rightarrow> True | Some sel \<Rightarrow> querySelector sel \<noteq> None)
             results)" .
  have "distinct (concat (map frameResults (splitResultsByFrame_spec querySelector results)))"
    if "distinct results"
  proof -
    from that have "distinct (filter (\<lambda>r. case framePath r of None \<Rightarrow> True
                       | Some sel \<Rightarrow> querySelector sel \<noteq> None) results)"
      by simp
    with perm show ?thesis
      using mset_eq_imp_distinct_iff by blast
  qed
  with perm show ?thesis by blast
qed

theorem split_is_permutation_of_resolvable_instances_witness:
  "distinct [inst1, inst5, inst6, inst3] \<and>
   mset (concat (map frameResults
      (splitResultsByFrame_spec example_querySelector [inst1, inst5, inst6, inst3]))) =
     mset [inst1, inst5, inst3] \<and>
   distinct (concat (map frameResults
      (splitResultsByFrame_spec example_querySelector [inst1, inst5, inst6, inst3])))"
proof -
  have d: "distinct [inst1, inst5, inst6, inst3]"
    by (simp add: inst1_def inst3_def inst5_def inst6_def)
  have f: "filter (\<lambda>r. case framePath r of None \<Rightarrow> True | Some sel \<Rightarrow> example_querySelector sel \<noteq> None)
             [inst1, inst5, inst6, inst3] = [inst1, inst5, inst3]"
    by (simp add: inst1_def inst3_def inst5_def inst6_def example_querySelector_def)
  show ?thesis
    using d split_is_permutation_of_resolvable_instances
            [of example_querySelector "[inst1, inst5, inst6, inst3]"]
    unfolding f by blast
qed

text \<open>
  C5, as stated, fails: an instance whose frame path does not resolve is in no partition,
  so the concatenation of the partitions is not a permutation of the input.
\<close>

theorem split_drops_instances_counterexample:
  "\<not> mset (concat (map frameResults (splitResultsByFrame_spec example_querySelector [inst6]))) =
     mset [inst6]"
  by (simp add: splitResultsByFrame_spec_def example_querySelector_def inst6_def)

end
